theory Spec2Isabelle
  imports Main "HOL-Library.Word"
begin

section \<open>The trxdb loader of sf-ethereum: data\<close>

text \<open>
  The model follows \<^verbatim>\<open>trxdb-loader\<close>'s \<^verbatim>\<open>BigtableLoader\<close> (the Go file with
  \<^verbatim>\<open>FullJob\<close>, \<^verbatim>\<open>PatchJob\<close>, \<^verbatim>\<open>FlushIfNeeded\<close>, \<^verbatim>\<open>Launch\<close>).
  Go's \<^verbatim>\<open>uint64\<close> is a 64-bit word; Go's \<^verbatim>\<open>int\<close> (StepIndex, StepCount) is a 64-bit word
  too: the code only adds 1 to it and compares for equality, which do not depend on the sign.
  A \<^verbatim>\<open>time.Time\<close> is the number of nanoseconds since Go's zero time, so that
  \<^verbatim>\<open>IsZero\<close> is \<open>t = 0\<close>; a \<^verbatim>\<open>time.Duration\<close> is a number of nanoseconds in
  the range of an int64.
\<close>

type_synonym u64 = "64 word"
type_synonym bytes = "8 word list"
type_synonym time = int
type_synonym Duration = int

definition Second :: Duration where
  "Second = 1000000000"

definition maxDuration :: Duration where
  "maxDuration = 2 ^ 63 - 1"

definition minDuration :: Duration where
  "minDuration = - (2 ^ 63)"

text \<open>\<^verbatim>\<open>t.Sub(u)\<close>: the difference, held at the largest or smallest Duration when it does not fit.\<close>

definition time_Sub :: "time \<Rightarrow> time \<Rightarrow> Duration" where
  "time_Sub t u =
     (let d = t - u in
      if d > maxDuration then maxDuration
      else if d < minDuration then minDuration
      else d)"

text \<open>
  \<^verbatim>\<open>pbcodec.Block\<close> with the fields the loader reads or writes. The loader never looks at the
  rest of the protobuf message. \<^verbatim>\<open>MustTime\<close> reads the header's timestamp; the header is
  always present and its timestamp valid (the panics of a nil header or of a malformed timestamp
  are outside the model).
\<close>

record BlockHeader =
  ParentHash :: bytes
  Header_Hash :: bytes
  Header_Number :: u64
  Timestamp :: time

record Block =
  Number :: u64
  Hash :: bytes
  Header :: BlockHeader

definition MustTime :: "Block \<Rightarrow> time" where
  "MustTime block = Timestamp (Header block)"

text \<open>\<^verbatim>\<open>bstream.StepType\<close> and the \<^verbatim>\<open>forkable.ForkableObject\<close> handed over with each block.\<close>

datatype StepType = StepNew | StepUndo | StepRedo | StepHandoff | StepIrreversible | StepStalled

record ForkableObject =
  Step :: StepType
  StepIndex :: "64 word"
  StepCount :: "64 word"
  StepBlocks :: "Block list"

text \<open>\<^verbatim>\<open>bstream.Block\<close> as \<^verbatim>\<open>ProcessBlock\<close> receives it: its number and its native block.\<close>

record bstream_Block =
  Num :: u64
  ToNative :: Block

text \<open>
  Errors are values. \<open>DBError\<close> is an error of the Commit Target, \<open>Wrapped\<close> is
  \<^verbatim>\<open>fmt.Errorf("msg: %w", err)\<close>, \<open>Formatted\<close> is \<^verbatim>\<open>fmt.Errorf("msg: %s", err)\<close>
  and \<open>UnsupportedStep\<close> is \<^verbatim>\<open>fmt.Errorf("unsupported forkable step %q", step)\<close>.
  A Go function that returns \<^verbatim>\<open>error\<close> returns an \<open>error option\<close> (\<open>None\<close> is nil);
  one that can also panic returns a \<open>result\<close>.
\<close>

datatype error =
    DBError string
  | Wrapped string error
  | Formatted string error
  | UnsupportedStep StepType

datatype result = Ok | Failed error | Panic

definition ret :: "error option \<Rightarrow> result" where
  "ret e = (case e of None \<Rightarrow> Ok | Some err \<Rightarrow> Failed err)"

text \<open>
  The calls the loader makes on its collaborators are recorded, in order, in a trace: the calls
  on the Commit Target (\<^verbatim>\<open>trxdb.DBWriter\<close>) with what they returned, and the calls of the
  loader's own \<^verbatim>\<open>Shutdown\<close>. The Commit Target is not part of the loader: what it
  answers to a call is any function of the calls made so far.
\<close>

datatype call = PutBlock Block | UpdateNowIrreversibleBlock Block | Flush

datatype event = Called call "error option" | ShutdownCalled "error option"

datatype Job = JobFull | JobPatch

text \<open>
  The loader. Beside the fields of the Go struct that the jobs use, the record holds the state
  of the embedded \<^verbatim>\<open>shutter.Shutter\<close> (\<open>terminating\<close>, \<open>shutdownErr\<close>), of the
  source's shutter (\<open>sourceTerminating\<close>), whether \<^verbatim>\<open>Launch\<close> has registered its
  callbacks (\<open>launched\<close>), and the environment: the trace, the wall clock (the value of its
  n-th reading and the number of readings so far) and the two protocol constants of
  \<^verbatim>\<open>bstream\<close>, which the repository sets elsewhere.
\<close>

record BigtableLoader =
  processingJob :: Job
  db :: "event list \<Rightarrow> call \<Rightarrow> error option"
  batchSize :: u64
  lastTickBlock :: u64
  lastTickTime :: time
  endBlock :: u64
  healthy :: bool
  terminating :: bool
  shutdownErr :: "error option"
  launched :: bool
  sourceTerminating :: bool
  trace :: "event list"
  clock :: "nat \<Rightarrow> time"
  reads :: nat
  GetProtocolFirstStreamableBlock :: u64
  GetProtocolGenesisBlock :: u64

section \<open>Operations\<close>

text \<open>\<^verbatim>\<open>NewBigtableLoader\<close>: every field not given is Go's zero value; the job is the full job.\<close>

definition NewBigtableLoader ::
  "u64 \<Rightarrow> (event list \<Rightarrow> call \<Rightarrow> error option) \<Rightarrow> (nat \<Rightarrow> time) \<Rightarrow> u64 \<Rightarrow> u64 \<Rightarrow> BigtableLoader" where
  "NewBigtableLoader batchSize' db' clock' firstStreamable genesis =
     \<lparr> processingJob = JobFull, db = db', batchSize = batchSize',
       lastTickBlock = 0, lastTickTime = 0, endBlock = 0, healthy = False,
       terminating = False, shutdownErr = None, launched = False,
       sourceTerminating = False, trace = [], clock = clock', reads = 0,
       GetProtocolFirstStreamableBlock = firstStreamable,
       GetProtocolGenesisBlock = genesis \<rparr>"

text \<open>\<^verbatim>\<open>BuildPipelineBatch\<close> and \<^verbatim>\<open>BuildPipelinePatch\<close>, as far as the loader's own state goes.\<close>

definition BuildPipelineJob :: "Job \<Rightarrow> BigtableLoader \<Rightarrow> BigtableLoader" where
  "BuildPipelineJob job l = l\<lparr>processingJob := job\<rparr>"

definition StopBeforeBlock :: "u64 \<Rightarrow> BigtableLoader \<Rightarrow> BigtableLoader" where
  "StopBeforeBlock blockNum l = l\<lparr>endBlock := blockNum\<rparr>"

definition setUnhealthy :: "BigtableLoader \<Rightarrow> BigtableLoader" where
  "setUnhealthy l = (if healthy l then l\<lparr>healthy := False\<rparr> else l)"

definition setHealthy :: "BigtableLoader \<Rightarrow> BigtableLoader" where
  "setHealthy l = (if \<not> healthy l then l\<lparr>healthy := True\<rparr> else l)"

definition Healthy :: "BigtableLoader \<Rightarrow> bool" where
  "Healthy l = healthy l"

definition IsTerminating :: "BigtableLoader \<Rightarrow> bool" where
  "IsTerminating l = terminating l"

text \<open>\<^verbatim>\<open>time.Now()\<close>: the next reading of the clock.\<close>

definition time_Now :: "BigtableLoader \<Rightarrow> time \<times> BigtableLoader" where
  "time_Now l = (clock l (reads l), l\<lparr>reads := Suc (reads l)\<rparr>)"

text \<open>A call on the Commit Target: it answers, and the call is recorded with the answer.\<close>

definition db_call :: "call \<Rightarrow> BigtableLoader \<Rightarrow> error option \<times> BigtableLoader" where
  "db_call c l =
     (let r = db l (trace l) c in (r, l\<lparr>trace := trace l @ [Called c r]\<rparr>))"

text \<open>
  \<^verbatim>\<open>Launch\<close> registers three callbacks and runs the source:
  the source's OnTerminating calls \<^verbatim>\<open>l.Shutdown(err)\<close>, the source's OnTerminated calls
  \<^verbatim>\<open>l.setUnhealthy()\<close>, and the loader's OnTerminating calls
  \<^verbatim>\<open>l.source.Shutdown(err)\<close>. Running the source is the deliveries themselves.
\<close>

definition Launch :: "BigtableLoader \<Rightarrow> BigtableLoader" where
  "Launch l = l\<lparr>launched := True\<rparr>"

text \<open>
  \<^verbatim>\<open>Shutdown\<close> is the method of \<^verbatim>\<open>shutter.Shutter\<close>, a library the loader and its source
  both embed. Its contract: the first call marks the shutter as terminating, keeps the error,
  runs the OnTerminating callbacks and then the OnTerminated callbacks; a later call returns at
  once. With the callbacks of \<^verbatim>\<open>Launch\<close> the two shutters call each other, and the second
  call of each chain finds its shutter terminating already, so the chain is written out.

  \<open>Shutdown_by_source\<close> is \<^verbatim>\<open>l.Shutdown(err)\<close> as the source's OnTerminating callback runs
  it: the source is terminating by then, so the loader's own callback
  (\<^verbatim>\<open>l.source.Shutdown\<close>) returns at once.
\<close>

definition Shutdown_by_source :: "error option \<Rightarrow> BigtableLoader \<Rightarrow> BigtableLoader" where
  "Shutdown_by_source err l =
     (let l0 = l\<lparr>trace := trace l @ [ShutdownCalled err]\<rparr> in
      if terminating l0 then l0
      else l0\<lparr>terminating := True, shutdownErr := err\<rparr>)"

definition source_Shutdown :: "error option \<Rightarrow> BigtableLoader \<Rightarrow> BigtableLoader" where
  "source_Shutdown err l =
     (if sourceTerminating l then l
      else
        (let l1 = l\<lparr>sourceTerminating := True\<rparr>;
             l2 = (if launched l1 then Shutdown_by_source err l1 else l1)
         in if launched l2 then setUnhealthy l2 else l2))"

definition Shutdown :: "error option \<Rightarrow> BigtableLoader \<Rightarrow> BigtableLoader" where
  "Shutdown err l =
     (let l0 = l\<lparr>trace := trace l @ [ShutdownCalled err]\<rparr> in
      if terminating l0 then l0
      else
        (let l1 = l0\<lparr>terminating := True, shutdownErr := err\<rparr>
         in if launched l1 then source_Shutdown err l1 else l1))"

text \<open>
  \<^verbatim>\<open>ShowProgress\<close>. The log line and its rate (a floating-point quotient) are not modelled;
  the two fields are updated as in the source.
\<close>

definition ShowProgress :: "u64 \<Rightarrow> BigtableLoader \<Rightarrow> BigtableLoader" where
  "ShowProgress blockNum l =
     (case time_Now l of (now, l1) \<Rightarrow>
        if lastTickTime l1 < now + (- 5 * Second)
        then l1\<lparr>lastTickTime := now, lastTickBlock := blockNum\<rparr>
        else l1)"

text \<open>\<^verbatim>\<open>DoFlush\<close>: the timeout of the context shows as an error of \<^verbatim>\<open>Flush\<close>.\<close>

definition DoFlush :: "u64 \<Rightarrow> BigtableLoader \<Rightarrow> error option \<times> BigtableLoader" where
  "DoFlush blockNum l =
     (case db_call Flush l of
        (Some err, l1) \<Rightarrow> (Some (Wrapped ''flush failed'' err), l1)
      | (None, l1) \<Rightarrow> (None, l1))"

text \<open>
  \<^verbatim>\<open>FlushIfNeeded\<close>. \<^verbatim>\<open>blockNum%l.batchSize\<close> is evaluated first and panics (integer divide
  by zero) when the batch size is 0; \<^verbatim>\<open>||\<close> reads the clock only when the remainder is not 0.
  The metrics calls have no effect on the loader and are left out.
\<close>

definition FlushIfNeeded :: "u64 \<Rightarrow> time \<Rightarrow> BigtableLoader \<Rightarrow> result \<times> BigtableLoader" where
  "FlushIfNeeded blockNum blockTime l =
     (if batchSize l = 0 then (Panic, l)
      else if blockNum mod batchSize l = 0 then
        (case DoFlush blockNum l of (err, l1) \<Rightarrow> (ret err, l1))
      else
        (case time_Now l of (now, l1) \<Rightarrow>
           if time_Sub now blockTime < 25 * Second
           then (case DoFlush blockNum l1 of (err, l2) \<Rightarrow> (ret err, l2))
           else (Ok, l1)))"

fun UpdateIrreversibleData :: "Block list \<Rightarrow> BigtableLoader \<Rightarrow> error option \<times> BigtableLoader" where
  "UpdateIrreversibleData [] l = (None, l)"
| "UpdateIrreversibleData (blk # rest) l =
     (case db_call (UpdateNowIrreversibleBlock blk) l of
        (Some err, l1) \<Rightarrow> (Some err, l1)
      | (None, l1) \<Rightarrow> UpdateIrreversibleData rest l1)"

text \<open>The block \<^verbatim>\<open>FullJob\<close> builds for the genesis height; fields it does not set are zero.\<close>

definition genesisBlock :: "BigtableLoader \<Rightarrow> Block \<Rightarrow> Block" where
  "genesisBlock l block =
     \<lparr> Number = GetProtocolGenesisBlock l,
       Hash = ParentHash (Header block),
       Header = \<lparr> ParentHash = [],
                  Header_Hash = ParentHash (Header block),
                  Header_Number = GetProtocolGenesisBlock l,
                  Timestamp = Timestamp (Header block) \<rparr> \<rparr>"

text \<open>The end of \<^verbatim>\<open>FullJob\<close>'s New case: store the block, then \<^verbatim>\<open>FlushIfNeeded\<close>.\<close>

definition FullJob_store :: "u64 \<Rightarrow> Block \<Rightarrow> time \<Rightarrow> BigtableLoader \<Rightarrow> result \<times> BigtableLoader" where
  "FullJob_store blockNum block blkTime l =
     (case db_call (PutBlock block) l of
        (Some err, l1) \<Rightarrow> (Failed (Formatted ''store block'' err), l1)
      | (None, l1) \<Rightarrow> FlushIfNeeded blockNum blkTime l1)"

text \<open>The stop-block test of both jobs.\<close>

definition cutoff :: "u64 \<Rightarrow> ForkableObject \<Rightarrow> BigtableLoader \<Rightarrow> bool" where
  "cutoff blockNum fObj l \<longleftrightarrow>
     endBlock l \<noteq> 0 \<and> blockNum \<ge> endBlock l \<and> StepCount fObj = StepIndex fObj + 1"

definition FullJob :: "u64 \<Rightarrow> Block \<Rightarrow> ForkableObject \<Rightarrow> BigtableLoader \<Rightarrow> result \<times> BigtableLoader" where
  "FullJob blockNum block fObj l =
     (let blkTime = MustTime block in
      case Step fObj of
        StepNew \<Rightarrow>
          (let l1 = setHealthy (ShowProgress blockNum l) in
           if blockNum = GetProtocolFirstStreamableBlock l1 then
             (case db_call (PutBlock (genesisBlock l1 block)) l1 of
                (Some err, l2) \<Rightarrow> (Failed (Wrapped ''store genesis block'' err), l2)
              | (None, l2) \<Rightarrow>
                  (case db_call (UpdateNowIrreversibleBlock (genesisBlock l1 block)) l2 of
                     (Some err, l3) \<Rightarrow>
                       (Failed (Wrapped ''set genesis block irreversible'' err), l3)
                   | (None, l3) \<Rightarrow> FullJob_store blockNum block blkTime l3))
           else FullJob_store blockNum block blkTime l1)
      | StepIrreversible \<Rightarrow>
          if cutoff blockNum fObj l then
            (case DoFlush blockNum l of
               (Some err, l1) \<Rightarrow> (Failed err, Shutdown (Some err) l1)
             | (None, l1) \<Rightarrow> (Ok, Shutdown None l1))
          else if StepIndex fObj \<noteq> 0 then (Ok, l)
          else
            (case UpdateIrreversibleData (StepBlocks fObj) l of
               (Some err, l1) \<Rightarrow> (Failed err, l1)
             | (None, l1) \<Rightarrow> FlushIfNeeded blockNum blkTime l1)
      | _ \<Rightarrow> (Failed (UnsupportedStep (Step fObj)), l))"

text \<open>\<^verbatim>\<open>PatchJob\<close>: its switch has no default case, so any other step falls to \<^verbatim>\<open>return nil\<close>.\<close>

definition PatchJob :: "u64 \<Rightarrow> Block \<Rightarrow> ForkableObject \<Rightarrow> BigtableLoader \<Rightarrow> result \<times> BigtableLoader" where
  "PatchJob blockNum blk fObj l =
     (case Step fObj of
        StepNew \<Rightarrow> FlushIfNeeded blockNum (MustTime blk) (ShowProgress blockNum l)
      | StepIrreversible \<Rightarrow>
          if cutoff blockNum fObj l then
            (case DoFlush blockNum l of
               (Some err, l1) \<Rightarrow> (Failed err, l1)
             | (None, l1) \<Rightarrow> (Ok, Shutdown None l1))
          else (Ok, l)
      | _ \<Rightarrow> (Ok, l))"

definition ProcessBlock :: "bstream_Block \<Rightarrow> ForkableObject \<Rightarrow> BigtableLoader \<Rightarrow> result \<times> BigtableLoader" where
  "ProcessBlock blk obj l =
     (if IsTerminating l then (Ok, l)
      else
        (case processingJob l of
           JobFull \<Rightarrow> FullJob (Num blk) (ToNative blk) obj l
         | JobPatch \<Rightarrow> PatchJob (Num blk) (ToNative blk) obj l))"

section \<open>Reading a trace\<close>

text \<open>The events a call added to the trace, and the blocks written or finalized among them.\<close>

definition emitted :: "BigtableLoader \<Rightarrow> BigtableLoader \<Rightarrow> event list" where
  "emitted l l' = drop (length (trace l)) (trace l')"

fun put_calls :: "event list \<Rightarrow> Block list" where
  "put_calls [] = []"
| "put_calls (Called (PutBlock b) r # es) = b # put_calls es"
| "put_calls (ev # es) = put_calls es"

fun finalize_calls :: "event list \<Rightarrow> Block list" where
  "finalize_calls [] = []"
| "finalize_calls (Called (UpdateNowIrreversibleBlock b) r # es) = b # finalize_calls es"
| "finalize_calls (ev # es) = finalize_calls es"

text \<open>The trace of finalizing every block of a group with success, in the group's order.\<close>

definition finalized :: "Block list \<Rightarrow> event list" where
  "finalized bs = map (\<lambda>b. Called (UpdateNowIrreversibleBlock b) None) bs"

definition is_flush :: "event \<Rightarrow> bool" where
  "is_flush ev = (case ev of Called Flush r \<Rightarrow> True | _ \<Rightarrow> False)"

text \<open>
  The flush controller run on a list of blocks (number and timestamp), one after the other:
  the numbers of the blocks at which it called \<^verbatim>\<open>Flush\<close>.
\<close>

fun flush_points :: "(u64 \<times> time) list \<Rightarrow> BigtableLoader \<Rightarrow> u64 list" where
  "flush_points [] l = []"
| "flush_points ((blockNum, blockTime) # rest) l =
     (case FlushIfNeeded blockNum blockTime l of
        (r, l1) \<Rightarrow>
          (if length (filter is_flush (trace l1)) > length (filter is_flush (trace l))
           then [blockNum] else []) @ flush_points rest l1)"

section \<open>Sample collaborators and deliveries\<close>

text \<open>
  Commit Targets: one that accepts every call, one whose \<^verbatim>\<open>Flush\<close> fails, one whose
  \<^verbatim>\<open>PutBlock\<close> fails, and one that refuses to finalize the block of a given number.
\<close>

definition db_ok :: "event list \<Rightarrow> call \<Rightarrow> error option" where
  "db_ok h c = None"

definition db_flush_fails :: "event list \<Rightarrow> call \<Rightarrow> error option" where
  "db_flush_fails h c = (case c of Flush \<Rightarrow> Some (DBError ''deadline exceeded'') | _ \<Rightarrow> None)"

definition db_put_fails :: "event list \<Rightarrow> call \<Rightarrow> error option" where
  "db_put_fails h c = (case c of PutBlock b \<Rightarrow> Some (DBError ''unavailable'') | _ \<Rightarrow> None)"

definition db_finalize_fails_at :: "u64 \<Rightarrow> event list \<Rightarrow> call \<Rightarrow> error option" where
  "db_finalize_fails_at n h c =
     (case c of
        UpdateNowIrreversibleBlock b \<Rightarrow> if Number b = n then Some (DBError ''unavailable'') else None
      | _ \<Rightarrow> None)"

text \<open>A clock that stands still, blocks, and the object delivered with a block.\<close>

definition clock_at :: "time \<Rightarrow> nat \<Rightarrow> time" where
  "clock_at t n = t"

definition mk_block :: "u64 \<Rightarrow> bytes \<Rightarrow> bytes \<Rightarrow> time \<Rightarrow> Block" where
  "mk_block n h p ts =
     \<lparr> Number = n, Hash = h,
       Header = \<lparr> ParentHash = p, Header_Hash = h, Header_Number = n, Timestamp = ts \<rparr> \<rparr>"

definition mk_obj :: "StepType \<Rightarrow> 64 word \<Rightarrow> 64 word \<Rightarrow> Block list \<Rightarrow> ForkableObject" where
  "mk_obj s i c bs = \<lparr> Step = s, StepIndex = i, StepCount = c, StepBlocks = bs \<rparr>"

definition to_bstream :: "Block \<Rightarrow> bstream_Block" where
  "to_bstream b = \<lparr> Num = Number b, ToNative = b \<rparr>"

text \<open>
  A loader with batch size 100 whose clock reads 1000 s, on a chain whose first streamable
  block is 1 and whose genesis height is 0; and blocks stamped 1 s, so 999 s old.
\<close>

definition sample_loader :: "(event list \<Rightarrow> call \<Rightarrow> error option) \<Rightarrow> BigtableLoader" where
  "sample_loader d = NewBigtableLoader 100 d (clock_at (1000 * Second)) 1 0"

definition old_block :: "u64 \<Rightarrow> Block" where
  "old_block n = mk_block n [7] [6] Second"

text \<open>The scenario of the stop block 2000 and the group 1998, 1999, 2000, after \<^verbatim>\<open>Launch\<close>.\<close>

definition stop_loader :: "(event list \<Rightarrow> call \<Rightarrow> error option) \<Rightarrow> BigtableLoader" where
  "stop_loader d = StopBeforeBlock 2000 (Launch (sample_loader d))"

definition group_2000 :: "Block list" where
  "group_2000 = [old_block 1998, old_block 1999, old_block 2000]"

text \<open>A loader constructed with batch size 0.\<close>

definition zero_loader :: "(event list \<Rightarrow> call \<Rightarrow> error option) \<Rightarrow> BigtableLoader" where
  "zero_loader d = NewBigtableLoader 0 d (clock_at (1000 * Second)) 1 0"

text \<open>
  Two competing blocks of number 1, the first streamable block of the sample chain, with the
  same parent, and the block the full job builds for the genesis height from either of them.
\<close>

definition fork_a :: Block where
  "fork_a = mk_block 1 [10] [9] Second"

definition fork_b :: Block where
  "fork_b = mk_block 1 [11] [9] Second"

definition sentinel :: Block where
  "sentinel = mk_block 0 [9] [] Second"

text \<open>The launched loader with stop block 2000 after the New delivery of block 1999.\<close>

definition running_loader :: BigtableLoader where
  "running_loader =
     snd (ProcessBlock (to_bstream (old_block 1999)) (mk_obj StepNew 0 1 []) (stop_loader db_ok))"

lemmas sample_defs =
  fork_a_def fork_b_def sentinel_def running_loader_def
  zero_loader_def db_ok_def db_flush_fails_def db_put_fails_def db_finalize_fails_at_def clock_at_def
  mk_block_def mk_obj_def to_bstream_def sample_loader_def old_block_def stop_loader_def
  group_2000_def NewBigtableLoader_def StopBeforeBlock_def Launch_def BuildPipelineJob_def

lemmas time_defs = MustTime_def time_Sub_def Second_def maxDuration_def minDuration_def

section \<open>Basic facts\<close>

lemma ret_not_Panic: "ret r \<noteq> Panic"
  by (simp add: ret_def split: option.splits)

lemma db_call_eq:
  "db_call c l = (db l (trace l) c, l\<lparr>trace := trace l @ [Called c (db l (trace l) c)]\<rparr>)"
  by (simp add: db_call_def Let_def)

lemma DoFlush_eq:
  "DoFlush n l =
     (map_option (Wrapped ''flush failed'') (db l (trace l) Flush),
      l\<lparr>trace := trace l @ [Called Flush (db l (trace l) Flush)]\<rparr>)"
  by (simp add: DoFlush_def db_call_eq split: option.splits)

lemmas shutdown_defs =
  Shutdown_def source_Shutdown_def Shutdown_by_source_def setUnhealthy_def Let_def

lemma Shutdown_terminating: "terminating (Shutdown err l)"
  by (simp add: shutdown_defs)

lemma Shutdown_trace:
  "trace (Shutdown err l) =
     trace l @ ShutdownCalled err #
       (if \<not> terminating l \<and> launched l \<and> \<not> sourceTerminating l then [ShutdownCalled err] else [])"
  by (simp add: shutdown_defs)

lemma ShowProgress_eq:
  "ShowProgress n l =
     (if lastTickTime l < clock l (reads l) - 5 * Second
      then l\<lparr>reads := Suc (reads l), lastTickTime := clock l (reads l), lastTickBlock := n\<rparr>
      else l\<lparr>reads := Suc (reads l)\<rparr>)"
  by (simp add: ShowProgress_def time_Now_def)

lemma ShowProgress_frame:
  "trace (ShowProgress n l) = trace l" "db (ShowProgress n l) = db l"
  "batchSize (ShowProgress n l) = batchSize l" "clock (ShowProgress n l) = clock l"
  "reads (ShowProgress n l) = Suc (reads l)" "healthy (ShowProgress n l) = healthy l"
  "endBlock (ShowProgress n l) = endBlock l"
  "GetProtocolFirstStreamableBlock (ShowProgress n l) = GetProtocolFirstStreamableBlock l"
  "GetProtocolGenesisBlock (ShowProgress n l) = GetProtocolGenesisBlock l"
  by (simp_all add: ShowProgress_eq)

lemma FlushIfNeeded_eq:
  "FlushIfNeeded n t l =
     (if batchSize l = 0 then (Panic, l)
      else if n mod batchSize l = 0 then
        (ret (map_option (Wrapped ''flush failed'') (db l (trace l) Flush)),
         l\<lparr>trace := trace l @ [Called Flush (db l (trace l) Flush)]\<rparr>)
      else if time_Sub (clock l (reads l)) t < 25 * Second then
        (ret (map_option (Wrapped ''flush failed'') (db l (trace l) Flush)),
         l\<lparr>reads := Suc (reads l), trace := trace l @ [Called Flush (db l (trace l) Flush)]\<rparr>)
      else (Ok, l\<lparr>reads := Suc (reads l)\<rparr>))"
  by (simp add: FlushIfNeeded_def DoFlush_eq time_Now_def)

lemma FullJob_store_eq:
  "FullJob_store n b t l =
     (case db l (trace l) (PutBlock b) of
        Some e \<Rightarrow>
          (Failed (Formatted ''store block'' e), l\<lparr>trace := trace l @ [Called (PutBlock b) (Some e)]\<rparr>)
      | None \<Rightarrow> FlushIfNeeded n t (l\<lparr>trace := trace l @ [Called (PutBlock b) None]\<rparr>))"
  by (simp add: FullJob_store_def db_call_eq split: option.splits)

lemma finalized_simps [simp]:
  "finalized [] = []"
  "finalized (b # bs) = Called (UpdateNowIrreversibleBlock b) None # finalized bs"
  by (simp_all add: finalized_def)

lemma UpdateIrreversibleData_all_ok:
  "(\<And>j. j < length bs \<Longrightarrow>
       db l (trace l @ finalized (take j bs)) (UpdateNowIrreversibleBlock (bs ! j)) = None) \<Longrightarrow>
   UpdateIrreversibleData bs l = (None, l\<lparr>trace := trace l @ finalized bs\<rparr>)"
proof (induction bs arbitrary: l)
  case Nil
  then show ?case by simp
next
  case (Cons b bs)
  let ?l1 = "l\<lparr>trace := trace l @ [Called (UpdateNowIrreversibleBlock b) None]\<rparr>"
  from Cons.prems [of 0] have first: "db l (trace l) (UpdateNowIrreversibleBlock b) = None"
    by simp
  have rest: "db ?l1 (trace ?l1 @ finalized (take j bs)) (UpdateNowIrreversibleBlock (bs ! j)) = None"
    if "j < length bs" for j
    using Cons.prems [of "Suc j"] that by simp
  from Cons.IH [of ?l1, OF rest] first show ?case
    by (simp add: db_call_eq)
qed

lemma UpdateIrreversibleData_first_failure:
  "k < length bs \<Longrightarrow>
   (\<And>j. j < k \<Longrightarrow>
       db l (trace l @ finalized (take j bs)) (UpdateNowIrreversibleBlock (bs ! j)) = None) \<Longrightarrow>
   db l (trace l @ finalized (take k bs)) (UpdateNowIrreversibleBlock (bs ! k)) = Some e \<Longrightarrow>
   UpdateIrreversibleData bs l =
     (Some e, l\<lparr>trace := trace l @ finalized (take k bs) @
                              [Called (UpdateNowIrreversibleBlock (bs ! k)) (Some e)]\<rparr>)"
proof (induction bs arbitrary: l k)
  case Nil
  then show ?case by simp
next
  case (Cons b bs)
  show ?case
  proof (cases k)
    case 0
    with Cons.prems(3) show ?thesis by (simp add: db_call_eq)
  next
    case (Suc k')
    let ?l1 = "l\<lparr>trace := trace l @ [Called (UpdateNowIrreversibleBlock b) None]\<rparr>"
    from Cons.prems(2) [of 0] Suc have first: "db l (trace l) (UpdateNowIrreversibleBlock b) = None"
      by simp
    have k': "k' < length bs" using Cons.prems(1) Suc by simp
    have before: "db ?l1 (trace ?l1 @ finalized (take j bs)) (UpdateNowIrreversibleBlock (bs ! j)) = None"
      if "j < k'" for j
      using Cons.prems(2) [of "Suc j"] that Suc by simp
    have at: "db ?l1 (trace ?l1 @ finalized (take k' bs)) (UpdateNowIrreversibleBlock (bs ! k')) = Some e"
      using Cons.prems(3) Suc by simp
    from Cons.IH [of k' ?l1, OF k' before at] first Suc show ?thesis
      by (simp add: db_call_eq)
  qed
qed

section \<open>Facts about the flush controller\<close>

lemma FlushIfNeeded_frame:
  "batchSize (snd (FlushIfNeeded blockNum blockTime l)) = batchSize l"
  "clock (snd (FlushIfNeeded blockNum blockTime l)) = clock l"
  by (simp_all add: FlushIfNeeded_eq)

lemma FlushIfNeeded_emitted:
  "batchSize l \<noteq> 0 \<Longrightarrow>
   emitted l (snd (FlushIfNeeded blockNum blockTime l)) =
     (if blockNum mod batchSize l = 0 \<or> time_Sub (clock l (reads l)) blockTime < 25 * Second
      then [Called Flush (db l (trace l) Flush)] else [])"
  by (simp add: FlushIfNeeded_eq emitted_def)

lemma FlushIfNeeded_trace:
  "batchSize l \<noteq> 0 \<Longrightarrow>
   trace (snd (FlushIfNeeded blockNum blockTime l)) =
     trace l @
       (if blockNum mod batchSize l = 0 \<or> time_Sub (clock l (reads l)) blockTime < 25 * Second
        then [Called Flush (db l (trace l) Flush)] else [])"
  by (simp add: FlushIfNeeded_eq)

lemma flush_points_old:
  "batchSize l \<noteq> 0 \<Longrightarrow>
   (\<And>i n t. (n, t) \<in> set bs \<Longrightarrow> \<not> time_Sub (clock l i) t < 25 * Second) \<Longrightarrow>
   flush_points bs l = filter (\<lambda>n. n mod batchSize l = 0) (map fst bs)"
proof (induction bs arbitrary: l)
  case Nil
  then show ?case by simp
next
  case (Cons b bs)
  obtain n t where b: "b = (n, t)" by (cases b)
  obtain r l1 where step: "FlushIfNeeded n t l = (r, l1)" by (cases "FlushIfNeeded n t l")
  have l1: "batchSize l1 = batchSize l" "clock l1 = clock l"
    using FlushIfNeeded_frame [of n t l] step by simp_all
  have old: "\<not> time_Sub (clock l (reads l)) t < 25 * Second"
    using Cons.prems(2) [of n t] b by simp
  have tr: "trace l1 =
      trace l @ (if n mod batchSize l = 0 then [Called Flush (db l (trace l) Flush)] else [])"
    using FlushIfNeeded_trace [OF Cons.prems(1), of n t] step old by simp
  have nz: "batchSize l1 \<noteq> 0" using Cons.prems(1) l1 by simp
  have old1: "\<not> time_Sub (clock l1 i) t' < 25 * Second" if "(n', t') \<in> set bs" for i n' t'
    using Cons.prems(2) [of n' t' i] that l1 by simp
  have IH: "flush_points bs l1 = filter (\<lambda>n. n mod batchSize l = 0) (map fst bs)"
    using Cons.IH [of l1, OF nz old1] l1 by simp
  show ?case
    using step tr IH b by (simp add: is_flush_def)
qed

lemma multiples_of_100:
  "filter (\<lambda>n. n mod 100 = 0) (map (\<lambda>k. (word_of_nat k :: u64)) [1..<251]) = [100, 200]"
  by code_simp

section \<open>Facts about the New case and about what a delivery writes\<close>

lemma put_calls_append: "put_calls (xs @ ys) = put_calls xs @ put_calls ys"
  by (induction xs rule: put_calls.induct) simp_all

lemma UpdateIrreversibleData_frame:
  "\<exists>es. snd (UpdateIrreversibleData bs l) = l\<lparr>trace := trace l @ es\<rparr> \<and> put_calls es = []"
proof (induction bs arbitrary: l)
  case Nil
  show ?case by (intro exI [of _ "[]"]) simp
next
  case (Cons b bs)
  let ?r = "db l (trace l) (UpdateNowIrreversibleBlock b)"
  let ?l1 = "l\<lparr>trace := trace l @ [Called (UpdateNowIrreversibleBlock b) ?r]\<rparr>"
  show ?case
  proof (cases ?r)
    case (Some e)
    then have "snd (UpdateIrreversibleData (b # bs) l) =
        l\<lparr>trace := trace l @ [Called (UpdateNowIrreversibleBlock b) (Some e)]\<rparr>"
      by (simp add: db_call_eq)
    then show ?thesis by (intro exI [of _ "[Called (UpdateNowIrreversibleBlock b) (Some e)]"]) simp
  next
    case None
    from Cons.IH [of ?l1] obtain es where
      es: "snd (UpdateIrreversibleData bs ?l1) = ?l1\<lparr>trace := trace ?l1 @ es\<rparr>" "put_calls es = []"
      by blast
    have "snd (UpdateIrreversibleData (b # bs) l) =
        l\<lparr>trace := trace l @ (Called (UpdateNowIrreversibleBlock b) None # es)\<rparr>"
      using None es(1) by (simp add: db_call_eq)
    then show ?thesis using es(2)
      by (intro exI [of _ "Called (UpdateNowIrreversibleBlock b) None # es"]) simp
  qed
qed

lemma genesisBlock_frame:
  "genesisBlock (setHealthy (ShowProgress n l)) b = genesisBlock l b"
  by (simp add: genesisBlock_def setHealthy_def ShowProgress_frame)

lemma started_frame:
  "trace (setHealthy (ShowProgress n l)) = trace l"
  "db (setHealthy (ShowProgress n l)) = db l"
  "batchSize (setHealthy (ShowProgress n l)) = batchSize l"
  "clock (setHealthy (ShowProgress n l)) = clock l"
  "GetProtocolFirstStreamableBlock (setHealthy (ShowProgress n l)) = GetProtocolFirstStreamableBlock l"
  "healthy (setHealthy (ShowProgress n l))"
  by (simp_all add: setHealthy_def ShowProgress_frame)

lemma FullJob_New_eq:
  "Step fObj = StepNew \<Longrightarrow>
   FullJob blockNum block fObj l =
     (let l1 = setHealthy (ShowProgress blockNum l); g = genesisBlock l block in
      if blockNum = GetProtocolFirstStreamableBlock l then
        (case db l (trace l) (PutBlock g) of
           Some e \<Rightarrow>
             (Failed (Wrapped ''store genesis block'' e),
              l1\<lparr>trace := trace l @ [Called (PutBlock g) (Some e)]\<rparr>)
         | None \<Rightarrow>
             (case db l (trace l @ [Called (PutBlock g) None]) (UpdateNowIrreversibleBlock g) of
                Some e \<Rightarrow>
                  (Failed (Wrapped ''set genesis block irreversible'' e),
                   l1\<lparr>trace := trace l @ [Called (PutBlock g) None,
                                           Called (UpdateNowIrreversibleBlock g) (Some e)]\<rparr>)
              | None \<Rightarrow>
                  FullJob_store blockNum block (MustTime block)
                    (l1\<lparr>trace := trace l @ [Called (PutBlock g) None,
                                            Called (UpdateNowIrreversibleBlock g) None]\<rparr>)))
      else FullJob_store blockNum block (MustTime block) l1)"
  by (simp add: FullJob_def Let_def db_call_eq started_frame genesisBlock_frame
      split: option.splits)

lemma FullJob_not_New_puts:
  assumes "Step fObj \<noteq> StepNew"
  shows "put_calls (emitted l (snd (FullJob blockNum block fObj l))) = []"
proof (cases "Step fObj = StepIrreversible")
  case False
  with assms show ?thesis
    by (cases "Step fObj") (simp_all add: FullJob_def emitted_def)
next
  case True
  obtain es where es: "snd (UpdateIrreversibleData (StepBlocks fObj) l) = l\<lparr>trace := trace l @ es\<rparr>"
    "put_calls es = []"
    using UpdateIrreversibleData_frame [of "StepBlocks fObj" l] by blast
  obtain r l1 where u: "UpdateIrreversibleData (StepBlocks fObj) l = (r, l1)"
    by (cases "UpdateIrreversibleData (StepBlocks fObj) l")
  with es have l1: "l1 = l\<lparr>trace := trace l @ es\<rparr>" by simp
  show ?thesis
    using True u l1 es(2)
    by (auto simp: FullJob_def emitted_def DoFlush_eq Shutdown_trace FlushIfNeeded_eq
        put_calls_append split: option.splits)
qed

section \<open>Facts about the health flag\<close>

lemma Shutdown_health:
  "healthy (Shutdown err l) =
     (healthy l \<and> \<not> (\<not> terminating l \<and> launched l \<and> \<not> sourceTerminating l))"
  "sourceTerminating (Shutdown err l) = (sourceTerminating l \<or> (\<not> terminating l \<and> launched l))"
  "launched (Shutdown err l) = launched l"
  by (auto simp: shutdown_defs)

lemma FlushIfNeeded_health:
  "healthy (snd (FlushIfNeeded n t l)) = healthy l"
  "launched (snd (FlushIfNeeded n t l)) = launched l"
  "sourceTerminating (snd (FlushIfNeeded n t l)) = sourceTerminating l"
  by (simp_all add: FlushIfNeeded_eq)

lemma FullJob_store_health:
  "healthy (snd (FullJob_store n b t l)) = healthy l"
  by (simp add: FullJob_store_eq FlushIfNeeded_health split: option.splits)

lemma FullJob_New_healthy:
  "Step fObj = StepNew \<Longrightarrow> healthy (snd (FullJob blockNum block fObj l))"
  by (simp add: FullJob_New_eq Let_def FullJob_store_health started_frame split: option.splits)

lemma PatchJob_health:
  "healthy (snd (PatchJob blockNum block fObj l)) =
     (healthy l \<and>
      \<not> (Step fObj = StepIrreversible \<and> cutoff blockNum fObj l \<and> db l (trace l) Flush = None \<and>
         \<not> terminating l \<and> launched l \<and> \<not> sourceTerminating l))"
  "sourceTerminating (snd (PatchJob blockNum block fObj l)) =
     (sourceTerminating l \<or>
      (Step fObj = StepIrreversible \<and> cutoff blockNum fObj l \<and> db l (trace l) Flush = None \<and>
         \<not> terminating l \<and> launched l))"
  by (cases "Step fObj";
      auto simp: PatchJob_def FlushIfNeeded_health ShowProgress_frame ShowProgress_eq DoFlush_eq
        Shutdown_health split: option.splits)+

lemma FullJob_Irreversible_health:
  assumes "Step fObj = StepIrreversible"
  shows "healthy (snd (FullJob blockNum block fObj l)) =
           (healthy l \<and>
            \<not> (cutoff blockNum fObj l \<and> \<not> terminating l \<and> launched l \<and> \<not> sourceTerminating l))"
    and "sourceTerminating (snd (FullJob blockNum block fObj l)) =
           (sourceTerminating l \<or> (cutoff blockNum fObj l \<and> \<not> terminating l \<and> launched l))"
proof -
  obtain es where es: "snd (UpdateIrreversibleData (StepBlocks fObj) l) = l\<lparr>trace := trace l @ es\<rparr>"
    using UpdateIrreversibleData_frame [of "StepBlocks fObj" l] by blast
  obtain r l1 where u: "UpdateIrreversibleData (StepBlocks fObj) l = (r, l1)"
    by (cases "UpdateIrreversibleData (StepBlocks fObj) l")
  with es have l1: "l1 = l\<lparr>trace := trace l @ es\<rparr>" by simp
  show "healthy (snd (FullJob blockNum block fObj l)) =
           (healthy l \<and>
            \<not> (cutoff blockNum fObj l \<and> \<not> terminating l \<and> launched l \<and> \<not> sourceTerminating l))"
    using assms u l1
    by (auto simp: FullJob_def DoFlush_eq Shutdown_health FlushIfNeeded_health
        split: option.splits)
  show "sourceTerminating (snd (FullJob blockNum block fObj l)) =
           (sourceTerminating l \<or> (cutoff blockNum fObj l \<and> \<not> terminating l \<and> launched l))"
    using assms u l1
    by (auto simp: FullJob_def DoFlush_eq Shutdown_health FlushIfNeeded_health
        split: option.splits)
qed

lemma FullJob_clears:
  assumes "healthy l" and "\<not> healthy (snd (FullJob blockNum block fObj l))"
  shows "launched l \<and> \<not> sourceTerminating l \<and> sourceTerminating (snd (FullJob blockNum block fObj l))"
proof (cases "Step fObj")
  case StepNew
  with assms(2) FullJob_New_healthy [of fObj blockNum block l] show ?thesis by simp
next
  case StepIrreversible
  with assms FullJob_Irreversible_health [of fObj blockNum block l] show ?thesis by auto
qed (use assms in \<open>simp_all add: FullJob_def\<close>)

lemmas run_defs =
  ProcessBlock_def IsTerminating_def Healthy_def FullJob_New_eq FullJob_store_eq FlushIfNeeded_eq
  ShowProgress_eq setHealthy_def Let_def ret_def

section \<open>C1: New deliveries at and above the stop block\<close>

text \<open>
  C1 does not hold of the code. With the stop block 2000 configured, the New delivery of block
  2000 is written with \<^verbatim>\<open>PutBlock\<close> (and flushed, 2000 being a multiple of the batch
  size), and so is the New delivery of block 2001: the New case of \<^verbatim>\<open>FullJob\<close> never looks
  at \<open>endBlock\<close>. The comment of \<^verbatim>\<open>StopBeforeBlock\<close> says that the stop block will not
  be inserted.
\<close>

theorem FullJob_writes_stop_block:
  "endBlock (stop_loader db_ok) = 2000
   \<and> Num (to_bstream (old_block 2000)) = 2000
   \<and> ProcessBlock (to_bstream (old_block 2000)) (mk_obj StepNew 0 1 []) (stop_loader db_ok)
       = (Ok, stop_loader db_ok
            \<lparr>lastTickBlock := 2000, lastTickTime := 1000 * Second, healthy := True,
              trace := [Called (PutBlock (old_block 2000)) None, Called Flush None],
              reads := 1\<rparr>)
   \<and> put_calls (trace (snd (ProcessBlock (to_bstream (old_block 2001)) (mk_obj StepNew 0 1 [])
        (stop_loader db_ok))))
       = [old_block 2001]"
  by (simp add: sample_defs time_defs ProcessBlock_def IsTerminating_def FullJob_New_eq
      FullJob_store_eq FlushIfNeeded_eq ShowProgress_eq setHealthy_def Let_def ret_def)

section \<open>C2: an Irreversible delivery below the stop block\<close>

text \<open>
  C2. An Irreversible delivery handled by \<^verbatim>\<open>FullJob\<close> that does not meet the stop-block
  test: with \<open>StepIndex \<noteq> 0\<close> it returns nil and leaves the loader and the trace as they
  were (no finalize call); with \<open>StepIndex = 0\<close> it calls
  \<^verbatim>\<open>UpdateNowIrreversibleBlock\<close> on the blocks of \<open>StepBlocks\<close> in their order; when
  every call succeeds it goes on with \<^verbatim>\<open>FlushIfNeeded\<close>, and when the call on the k-th
  block is the first to fail it returns that error with no further call.
\<close>

theorem FullJob_Irreversible:
  assumes "Step fObj = StepIrreversible"
    and "\<not> (endBlock l \<noteq> 0 \<and> blockNum \<ge> endBlock l \<and> StepIndex fObj + 1 = StepCount fObj)"
  shows "(StepIndex fObj \<noteq> 0 \<longrightarrow> FullJob blockNum block fObj l = (Ok, l))
       \<and> (StepIndex fObj = 0 \<and>
            (\<forall>j < length (StepBlocks fObj).
               db l (trace l @ finalized (take j (StepBlocks fObj)))
                 (UpdateNowIrreversibleBlock (StepBlocks fObj ! j)) = None) \<longrightarrow>
            FullJob blockNum block fObj l =
              FlushIfNeeded blockNum (MustTime block)
                (l\<lparr>trace := trace l @ finalized (StepBlocks fObj)\<rparr>))
       \<and> (StepIndex fObj = 0 \<and> k < length (StepBlocks fObj) \<and>
            (\<forall>j < k.
               db l (trace l @ finalized (take j (StepBlocks fObj)))
                 (UpdateNowIrreversibleBlock (StepBlocks fObj ! j)) = None) \<and>
            db l (trace l @ finalized (take k (StepBlocks fObj)))
              (UpdateNowIrreversibleBlock (StepBlocks fObj ! k)) = Some e \<longrightarrow>
            FullJob blockNum block fObj l =
              (Failed e,
               l\<lparr>trace := trace l @ finalized (take k (StepBlocks fObj)) @
                             [Called (UpdateNowIrreversibleBlock (StepBlocks fObj ! k)) (Some e)]\<rparr>))"
proof -
  have nocut: "\<not> cutoff blockNum fObj l"
    using assms(2) by (auto simp: cutoff_def)
  have dup: "FullJob blockNum block fObj l = (Ok, l)" if "StepIndex fObj \<noteq> 0"
    using that assms(1) nocut by (simp add: FullJob_def)
  have all_ok: "FullJob blockNum block fObj l =
      FlushIfNeeded blockNum (MustTime block) (l\<lparr>trace := trace l @ finalized (StepBlocks fObj)\<rparr>)"
    if "StepIndex fObj = 0"
      and "\<forall>j < length (StepBlocks fObj).
             db l (trace l @ finalized (take j (StepBlocks fObj)))
               (UpdateNowIrreversibleBlock (StepBlocks fObj ! j)) = None"
    using that assms(1) nocut UpdateIrreversibleData_all_ok [of "StepBlocks fObj" l]
    by (simp add: FullJob_def)
  have abort: "FullJob blockNum block fObj l =
      (Failed e, l\<lparr>trace := trace l @ finalized (take k (StepBlocks fObj)) @
                     [Called (UpdateNowIrreversibleBlock (StepBlocks fObj ! k)) (Some e)]\<rparr>)"
    if "StepIndex fObj = 0" and "k < length (StepBlocks fObj)"
      and "\<forall>j < k. db l (trace l @ finalized (take j (StepBlocks fObj)))
               (UpdateNowIrreversibleBlock (StepBlocks fObj ! j)) = None"
      and "db l (trace l @ finalized (take k (StepBlocks fObj)))
              (UpdateNowIrreversibleBlock (StepBlocks fObj ! k)) = Some e"
    using that assms(1) nocut UpdateIrreversibleData_first_failure [of k "StepBlocks fObj" l e]
    by (simp add: FullJob_def)
  from dup all_ok abort show ?thesis by blast
qed

text \<open>
  The group 1998, 1999, 2000 delivered for block 1998 under the stop block 2000: index 1 does
  nothing, index 0 finalizes the three blocks in order and runs the flush controller (no flush:
  1998 is no multiple of 100 and the block is old), and a Commit Target that refuses block 1999
  stops the group there.
\<close>

theorem FullJob_Irreversible_witness:
  "FullJob 1998 (old_block 1998) (mk_obj StepIrreversible 1 3 group_2000) (stop_loader db_ok)
     = (Ok, stop_loader db_ok)
   \<and> FullJob 1998 (old_block 1998) (mk_obj StepIrreversible 0 3 group_2000) (stop_loader db_ok)
     = (Ok, stop_loader db_ok
          \<lparr>trace := [Called (UpdateNowIrreversibleBlock (old_block 1998)) None,
                     Called (UpdateNowIrreversibleBlock (old_block 1999)) None,
                     Called (UpdateNowIrreversibleBlock (old_block 2000)) None],
            reads := 1\<rparr>)
   \<and> FullJob 1998 (old_block 1998) (mk_obj StepIrreversible 0 3 group_2000)
        (stop_loader (db_finalize_fails_at 1999))
     = (Failed (DBError ''unavailable''), stop_loader (db_finalize_fails_at 1999)
          \<lparr>trace := [Called (UpdateNowIrreversibleBlock (old_block 1998)) None,
                     Called (UpdateNowIrreversibleBlock (old_block 1999))
                       (Some (DBError ''unavailable''))]\<rparr>)"
proof -
  have lt1: "j < Suc 0 \<longleftrightarrow> j = 0" for j :: nat by auto
  show ?thesis
    using FullJob_Irreversible [of "mk_obj StepIrreversible 1 3 group_2000" "stop_loader db_ok"
        1998 "old_block 1998"]
      FullJob_Irreversible [of "mk_obj StepIrreversible 0 3 group_2000" "stop_loader db_ok"
        1998 "old_block 1998"]
      FullJob_Irreversible [of "mk_obj StepIrreversible 0 3 group_2000"
        "stop_loader (db_finalize_fails_at 1999)" 1998 "old_block 1998" 1 "DBError ''unavailable''"]
    by (simp add: sample_defs FlushIfNeeded_eq MustTime_def time_Sub_def Second_def
        maxDuration_def minDuration_def lt1)
qed

section \<open>C3: when the flush controller flushes\<close>

text \<open>
  C3. \<^verbatim>\<open>FlushIfNeeded\<close>, for a batch size that is not 0 (with 0 the remainder has no value,
  see C9), calls \<^verbatim>\<open>Flush\<close> once if \<open>blockNum mod batchSize = 0\<close> or the block's age
  at the reading of the clock is under 25 s, and makes no call otherwise. With batch size 100
  and the blocks 1 to 250, each at least 25 s old at every reading of the clock, the flushes are
  at the blocks 100 and 200 and nowhere else.
\<close>

theorem FlushIfNeeded_flushes:
  "(batchSize l \<noteq> 0 \<longrightarrow>
      emitted l (snd (FlushIfNeeded blockNum blockTime l)) =
        (if blockNum mod batchSize l = 0 \<or> time_Sub (clock l (reads l)) blockTime < 25 * Second
         then [Called Flush (db l (trace l) Flush)] else []))
   \<and> (batchSize l = 100 \<and> (\<forall>i k. 25 * Second \<le> time_Sub (clock l i) (ts k)) \<longrightarrow>
        flush_points (map (\<lambda>k. (word_of_nat k, ts k)) [1..<251]) l = [100, 200])"
proof (intro conjI impI)
  assume "batchSize l \<noteq> 0"
  then show "emitted l (snd (FlushIfNeeded blockNum blockTime l)) =
        (if blockNum mod batchSize l = 0 \<or> time_Sub (clock l (reads l)) blockTime < 25 * Second
         then [Called Flush (db l (trace l) Flush)] else [])"
    by (rule FlushIfNeeded_emitted)
next
  assume a: "batchSize l = 100 \<and> (\<forall>i k. 25 * Second \<le> time_Sub (clock l i) (ts k))"
  let ?bs = "map (\<lambda>k. (word_of_nat k :: u64, ts k)) [1..<251]"
  have nz: "batchSize l \<noteq> 0" using a by simp
  have old: "\<not> time_Sub (clock l i) t < 25 * Second" if "(n, t) \<in> set ?bs" for i n t
  proof -
    from that obtain k where "t = ts k" by auto
    with a show ?thesis by (simp add: not_less)
  qed
  have fsts: "map fst ?bs = map (\<lambda>k. (word_of_nat k :: u64)) [1..<251]"
    by (simp add: comp_def)
  have "flush_points ?bs l = filter (\<lambda>n. n mod batchSize l = 0) (map fst ?bs)"
  proof (rule flush_points_old [OF nz])
    fix i n t
    assume "(n, t) \<in> set ?bs"
    then show "\<not> time_Sub (clock l i) t < 25 * Second" by (rule old)
  qed
  also have "\<dots> = filter (\<lambda>n. n mod 100 = 0) (map (\<lambda>k. (word_of_nat k :: u64)) [1..<251])"
  proof -
    from a have "batchSize l = 100" by simp
    then show ?thesis by (simp only: fsts)
  qed
  also have "\<dots> = [100, 200]" by (rule multiples_of_100)
  finally show "flush_points ?bs l = [100, 200]" .
qed

text \<open>
  Batch size 100, clock at 1000 s: block 100 stamped 1 s is flushed, block 101 stamped 1 s is
  not, block 101 stamped 990 s (10 s old) is; and the run over the blocks 1 to 250.
\<close>

theorem FlushIfNeeded_flushes_witness:
  "batchSize (sample_loader db_ok) = 100
   \<and> emitted (sample_loader db_ok) (snd (FlushIfNeeded 100 Second (sample_loader db_ok)))
       = [Called Flush None]
   \<and> emitted (sample_loader db_ok) (snd (FlushIfNeeded 101 Second (sample_loader db_ok))) = []
   \<and> emitted (sample_loader db_ok) (snd (FlushIfNeeded 101 (990 * Second) (sample_loader db_ok)))
       = [Called Flush None]
   \<and> flush_points (map (\<lambda>k. (word_of_nat k, Second)) [1..<251]) (sample_loader db_ok)
       = [100, 200]"
  using FlushIfNeeded_flushes [of "sample_loader db_ok" 100 Second "\<lambda>k. Second"]
    FlushIfNeeded_flushes [of "sample_loader db_ok" 101 Second "\<lambda>k. Second"]
    FlushIfNeeded_flushes [of "sample_loader db_ok" 101 "990 * Second" "\<lambda>k. Second"]
  by (simp add: sample_defs time_defs)

section \<open>C4: the block written for the genesis height\<close>

text \<open>
  C4, as the code has it. On every New delivery whose block number is the first streamable
  block, \<^verbatim>\<open>FullJob\<close> first writes a block for the genesis height, whose hash is the
  delivered block's parent hash, with \<^verbatim>\<open>PutBlock\<close> and at once marks it irreversible with
  \<^verbatim>\<open>UpdateNowIrreversibleBlock\<close>; if either call fails the delivery returns the wrapped
  error and makes no further call; otherwise the delivered block is written next. The loader
  keeps no record of having done so: the block is written once per such delivery. On any other
  delivery it is not written: a New delivery of another number writes the delivered block only,
  and a delivery of another step makes no \<^verbatim>\<open>PutBlock\<close> call.
\<close>

theorem FullJob_genesis:
  "(Step fObj = StepNew \<and> blockNum = GetProtocolFirstStreamableBlock l \<longrightarrow>
      Number (genesisBlock l block) = GetProtocolGenesisBlock l
    \<and> Hash (genesisBlock l block) = ParentHash (Header block)
    \<and> (case db l (trace l) (PutBlock (genesisBlock l block)) of
         Some e \<Rightarrow>
           fst (FullJob blockNum block fObj l) = Failed (Wrapped ''store genesis block'' e)
         \<and> emitted l (snd (FullJob blockNum block fObj l)) =
             [Called (PutBlock (genesisBlock l block)) (Some e)]
       | None \<Rightarrow>
           (case db l (trace l @ [Called (PutBlock (genesisBlock l block)) None])
                   (UpdateNowIrreversibleBlock (genesisBlock l block)) of
              Some e \<Rightarrow>
                fst (FullJob blockNum block fObj l) =
                  Failed (Wrapped ''set genesis block irreversible'' e)
              \<and> emitted l (snd (FullJob blockNum block fObj l)) =
                  [Called (PutBlock (genesisBlock l block)) None,
                   Called (UpdateNowIrreversibleBlock (genesisBlock l block)) (Some e)]
            | None \<Rightarrow>
                take 2 (emitted l (snd (FullJob blockNum block fObj l))) =
                  [Called (PutBlock (genesisBlock l block)) None,
                   Called (UpdateNowIrreversibleBlock (genesisBlock l block)) None]
              \<and> put_calls (emitted l (snd (FullJob blockNum block fObj l))) =
                  [genesisBlock l block, block]
              \<and> finalize_calls (emitted l (snd (FullJob blockNum block fObj l))) =
                  [genesisBlock l block])))
   \<and> (Step fObj = StepNew \<and> blockNum \<noteq> GetProtocolFirstStreamableBlock l \<longrightarrow>
        put_calls (emitted l (snd (FullJob blockNum block fObj l))) = [block]
      \<and> finalize_calls (emitted l (snd (FullJob blockNum block fObj l))) = [])
   \<and> (Step fObj \<noteq> StepNew \<longrightarrow>
        put_calls (emitted l (snd (FullJob blockNum block fObj l))) = [])"
proof (intro conjI impI)
  assume "Step fObj \<noteq> StepNew"
  then show "put_calls (emitted l (snd (FullJob blockNum block fObj l))) = []"
    by (rule FullJob_not_New_puts)
next
  assume a: "Step fObj = StepNew \<and> blockNum \<noteq> GetProtocolFirstStreamableBlock l"
  then show "put_calls (emitted l (snd (FullJob blockNum block fObj l))) = [block]"
    by (auto simp: FullJob_New_eq Let_def FullJob_store_eq FlushIfNeeded_eq started_frame
        emitted_def split: option.splits)
  from a show "finalize_calls (emitted l (snd (FullJob blockNum block fObj l))) = []"
    by (auto simp: FullJob_New_eq Let_def FullJob_store_eq FlushIfNeeded_eq started_frame
        emitted_def split: option.splits)
next
  assume a: "Step fObj = StepNew \<and> blockNum = GetProtocolFirstStreamableBlock l"
  show "Number (genesisBlock l block) = GetProtocolGenesisBlock l"
    by (simp add: genesisBlock_def)
  show "Hash (genesisBlock l block) = ParentHash (Header block)"
    by (simp add: genesisBlock_def)
  from a show "case db l (trace l) (PutBlock (genesisBlock l block)) of
         Some e \<Rightarrow>
           fst (FullJob blockNum block fObj l) = Failed (Wrapped ''store genesis block'' e)
         \<and> emitted l (snd (FullJob blockNum block fObj l)) =
             [Called (PutBlock (genesisBlock l block)) (Some e)]
       | None \<Rightarrow>
           (case db l (trace l @ [Called (PutBlock (genesisBlock l block)) None])
                   (UpdateNowIrreversibleBlock (genesisBlock l block)) of
              Some e \<Rightarrow>
                fst (FullJob blockNum block fObj l) =
                  Failed (Wrapped ''set genesis block irreversible'' e)
              \<and> emitted l (snd (FullJob blockNum block fObj l)) =
                  [Called (PutBlock (genesisBlock l block)) None,
                   Called (UpdateNowIrreversibleBlock (genesisBlock l block)) (Some e)]
            | None \<Rightarrow>
                take 2 (emitted l (snd (FullJob blockNum block fObj l))) =
                  [Called (PutBlock (genesisBlock l block)) None,
                   Called (UpdateNowIrreversibleBlock (genesisBlock l block)) None]
              \<and> put_calls (emitted l (snd (FullJob blockNum block fObj l))) =
                  [genesisBlock l block, block]
              \<and> finalize_calls (emitted l (snd (FullJob blockNum block fObj l))) =
                  [genesisBlock l block])"
    by (auto simp: FullJob_New_eq Let_def FullJob_store_eq FlushIfNeeded_eq started_frame
        emitted_def split: option.splits)
qed

text \<open>
  The New delivery of block 1 on Commit Targets that accept, that refuse \<^verbatim>\<open>PutBlock\<close> and
  that refuse to finalize height 0; the New delivery of block 5; an Irreversible delivery.
\<close>

theorem FullJob_genesis_witness:
  "Step (mk_obj StepNew 0 1 []) = StepNew
   \<and> GetProtocolFirstStreamableBlock (sample_loader db_ok) = 1
   \<and> genesisBlock (sample_loader db_ok) fork_a = sentinel
   \<and> emitted (sample_loader db_ok)
        (snd (FullJob 1 fork_a (mk_obj StepNew 0 1 []) (sample_loader db_ok)))
       = [Called (PutBlock sentinel) None, Called (UpdateNowIrreversibleBlock sentinel) None,
          Called (PutBlock fork_a) None]
   \<and> fst (FullJob 1 fork_a (mk_obj StepNew 0 1 []) (sample_loader db_put_fails))
       = Failed (Wrapped ''store genesis block'' (DBError ''unavailable''))
   \<and> fst (FullJob 1 fork_a (mk_obj StepNew 0 1 []) (sample_loader (db_finalize_fails_at 0)))
       = Failed (Wrapped ''set genesis block irreversible'' (DBError ''unavailable''))
   \<and> put_calls (emitted (sample_loader db_ok)
        (snd (FullJob 5 (old_block 5) (mk_obj StepNew 0 1 []) (sample_loader db_ok))))
       = [old_block 5]
   \<and> put_calls (emitted (stop_loader db_ok)
        (snd (FullJob 1998 (old_block 1998) (mk_obj StepIrreversible 0 3 group_2000)
                (stop_loader db_ok))))
       = []"
  using FullJob_genesis [of "mk_obj StepNew 0 1 []" 1 "sample_loader db_ok" fork_a]
    FullJob_genesis [of "mk_obj StepNew 0 1 []" 1 "sample_loader db_put_fails" fork_a]
    FullJob_genesis [of "mk_obj StepNew 0 1 []" 1 "sample_loader (db_finalize_fails_at 0)" fork_a]
    FullJob_genesis [of "mk_obj StepNew 0 1 []" 5 "sample_loader db_ok" "old_block 5"]
    FullJob_genesis [of "mk_obj StepIrreversible 0 3 group_2000" 1998 "stop_loader db_ok"
      "old_block 1998"]
  by (simp add: sample_defs time_defs genesisBlock_def FullJob_New_eq
      FullJob_store_eq FlushIfNeeded_eq ShowProgress_eq setHealthy_def emitted_def Let_def)

text \<open>
  C4 as stated fails: when two competing blocks of number 1 are delivered as New, one after the
  other, to one loader, the block for the genesis height is written and finalized twice.
\<close>

theorem genesis_twice_counterexample:
  "fst (ProcessBlock (to_bstream fork_a) (mk_obj StepNew 0 1 []) (sample_loader db_ok)) = Ok
   \<and> fst (ProcessBlock (to_bstream fork_b) (mk_obj StepNew 0 1 [])
        (snd (ProcessBlock (to_bstream fork_a) (mk_obj StepNew 0 1 []) (sample_loader db_ok)))) = Ok
   \<and> trace (snd (ProcessBlock (to_bstream fork_b) (mk_obj StepNew 0 1 [])
        (snd (ProcessBlock (to_bstream fork_a) (mk_obj StepNew 0 1 []) (sample_loader db_ok)))))
       = [Called (PutBlock sentinel) None, Called (UpdateNowIrreversibleBlock sentinel) None,
          Called (PutBlock fork_a) None,
          Called (PutBlock sentinel) None, Called (UpdateNowIrreversibleBlock sentinel) None,
          Called (PutBlock fork_b) None]"
  by (simp add: sample_defs time_defs genesisBlock_def ProcessBlock_def
      IsTerminating_def FullJob_New_eq FullJob_store_eq FlushIfNeeded_eq ShowProgress_eq
      setHealthy_def Let_def)

section \<open>C5: the health flag\<close>

text \<open>
  C5, as the code has it. The health flag is false in a new loader. \<^verbatim>\<open>FullJob\<close> sets it
  at every New delivery, before any write, so it is true after the delivery whether or not the
  delivery succeeded; \<^verbatim>\<open>PatchJob\<close> never sets it. A job clears it only by terminating the
  source, and the source's termination after \<^verbatim>\<open>Launch\<close> always clears it: the
  OnTerminated callback calls \<^verbatim>\<open>setUnhealthy\<close> whoever asked for the shutdown. So the clean
  completion at the stop block, where the loader shuts the source down, returns nil and leaves
  the flag false.
\<close>

theorem health_flag:
  "\<not> healthy (NewBigtableLoader bsize d c fsb gen)
   \<and> (Step fObj = StepNew \<longrightarrow> healthy (snd (FullJob blockNum block fObj l)))
   \<and> (healthy (snd (PatchJob blockNum block fObj l)) \<longrightarrow> healthy l)
   \<and> (healthy l \<and> \<not> healthy (snd (FullJob blockNum block fObj l)) \<longrightarrow>
        launched l \<and> \<not> sourceTerminating l
        \<and> sourceTerminating (snd (FullJob blockNum block fObj l)))
   \<and> (healthy l \<and> \<not> healthy (snd (PatchJob blockNum block fObj l)) \<longrightarrow>
        launched l \<and> \<not> sourceTerminating l
        \<and> sourceTerminating (snd (PatchJob blockNum block fObj l)))
   \<and> (launched l \<and> \<not> sourceTerminating l \<longrightarrow> \<not> healthy (source_Shutdown err l))
   \<and> (launched l \<and> \<not> terminating l \<and> \<not> sourceTerminating l \<and>
       Step fObj = StepIrreversible \<and> endBlock l \<noteq> 0 \<and> endBlock l \<le> blockNum \<and>
       StepIndex fObj + 1 = StepCount fObj \<and> db l (trace l) Flush = None \<longrightarrow>
        fst (FullJob blockNum block fObj l) = Ok
        \<and> \<not> healthy (snd (FullJob blockNum block fObj l)))"
proof (intro conjI impI)
  show "\<not> healthy (NewBigtableLoader bsize d c fsb gen)"
    by (simp add: NewBigtableLoader_def)
  show "healthy (snd (FullJob blockNum block fObj l))" if "Step fObj = StepNew"
    using that by (rule FullJob_New_healthy)
  show "healthy l" if "healthy (snd (PatchJob blockNum block fObj l))"
    using that by (simp add: PatchJob_health)
  show "launched l" "\<not> sourceTerminating l" "sourceTerminating (snd (FullJob blockNum block fObj l))"
    if "healthy l \<and> \<not> healthy (snd (FullJob blockNum block fObj l))"
    using that FullJob_clears [of l blockNum block fObj] by simp_all
  show "launched l" "\<not> sourceTerminating l" "sourceTerminating (snd (PatchJob blockNum block fObj l))"
    if "healthy l \<and> \<not> healthy (snd (PatchJob blockNum block fObj l))"
    using that by (auto simp: PatchJob_health)
  show "\<not> healthy (source_Shutdown err l)" if "launched l \<and> \<not> sourceTerminating l"
    using that by (simp add: shutdown_defs)
  show "fst (FullJob blockNum block fObj l) = Ok" "\<not> healthy (snd (FullJob blockNum block fObj l))"
    if "launched l \<and> \<not> terminating l \<and> \<not> sourceTerminating l \<and>
       Step fObj = StepIrreversible \<and> endBlock l \<noteq> 0 \<and> endBlock l \<le> blockNum \<and>
       StepIndex fObj + 1 = StepCount fObj \<and> db l (trace l) Flush = None"
    using that by (auto simp: FullJob_def cutoff_def DoFlush_eq Shutdown_health)
qed

text \<open>
  The stop-block scenario: block 1999 as New under either job, then the last delivery of the
  group 1998, 1999, 2000, or else a termination of the source with an error.
\<close>

theorem health_flag_witness:
  "\<not> healthy (sample_loader db_ok)
   \<and> Step (mk_obj StepNew 0 1 []) = StepNew
   \<and> healthy (snd (FullJob 1999 (old_block 1999) (mk_obj StepNew 0 1 []) (stop_loader db_ok)))
   \<and> \<not> healthy (snd (PatchJob 1999 (old_block 1999) (mk_obj StepNew 0 1 [])
         (BuildPipelineJob JobPatch (stop_loader db_ok))))
   \<and> healthy running_loader \<and> launched running_loader \<and> \<not> terminating running_loader
   \<and> \<not> sourceTerminating running_loader
   \<and> fst (FullJob 2000 (old_block 2000) (mk_obj StepIrreversible 2 3 group_2000) running_loader)
       = Ok
   \<and> \<not> healthy (snd (FullJob 2000 (old_block 2000) (mk_obj StepIrreversible 2 3 group_2000)
         running_loader))
   \<and> sourceTerminating (snd (FullJob 2000 (old_block 2000)
         (mk_obj StepIrreversible 2 3 group_2000) running_loader))
   \<and> \<not> healthy (source_Shutdown (Some (DBError ''connection lost'')) running_loader)"
  using health_flag [of 100 db_ok "clock_at (1000 * Second)" 1 0 "mk_obj StepNew 0 1 []" 1999
      "old_block 1999" "stop_loader db_ok" None]
    health_flag [of 100 db_ok "clock_at (1000 * Second)" 1 0 "mk_obj StepNew 0 1 []" 1999
      "old_block 1999" "BuildPipelineJob JobPatch (stop_loader db_ok)" None]
    health_flag [of 100 db_ok "clock_at (1000 * Second)" 1 0
      "mk_obj StepIrreversible 2 3 group_2000" 2000 "old_block 2000" running_loader
      "Some (DBError ''connection lost'')"]
  by (simp add: sample_defs time_defs run_defs)

text \<open>
  C5 as stated fails twice. A New delivery processed with success by a loader built for the
  patch job leaves the flag false. And on the launched full-job loader whose flag is true, the
  clean completion at the stop block (result nil, shutdown error nil) leaves it false.
\<close>

theorem health_flag_counterexample:
  "fst (ProcessBlock (to_bstream (old_block 5)) (mk_obj StepNew 0 1 [])
          (BuildPipelineJob JobPatch (sample_loader db_ok))) = Ok
   \<and> \<not> Healthy (snd (ProcessBlock (to_bstream (old_block 5)) (mk_obj StepNew 0 1 [])
          (BuildPipelineJob JobPatch (sample_loader db_ok))))
   \<and> Healthy running_loader
   \<and> fst (ProcessBlock (to_bstream (old_block 2000)) (mk_obj StepIrreversible 2 3 group_2000)
          running_loader) = Ok
   \<and> shutdownErr (snd (ProcessBlock (to_bstream (old_block 2000))
          (mk_obj StepIrreversible 2 3 group_2000) running_loader)) = None
   \<and> \<not> Healthy (snd (ProcessBlock (to_bstream (old_block 2000))
          (mk_obj StepIrreversible 2 3 group_2000) running_loader))"
  by (simp add: sample_defs time_defs run_defs PatchJob_def FullJob_def cutoff_def
      DoFlush_eq Shutdown_def source_Shutdown_def Shutdown_by_source_def setUnhealthy_def)

section \<open>C6: the stop-block cutoff of the full job\<close>

text \<open>
  C6. An Irreversible delivery with a stop block configured, \<open>blockNum \<ge> endBlock\<close> and
  \<open>StepIndex + 1 = StepCount\<close>: \<^verbatim>\<open>FullJob\<close> calls \<^verbatim>\<open>Flush\<close> whatever the batch
  size and the time, then calls \<^verbatim>\<open>Shutdown\<close>: with nil, returning nil, when the flush
  succeeded; with the flush error, returning it, when the flush failed. The loader is
  terminating afterwards, and the two calls are the next two events of the trace.
\<close>

theorem FullJob_cutoff:
  assumes "Step fObj = StepIrreversible"
    and "endBlock l \<noteq> 0" and "blockNum \<ge> endBlock l"
    and "StepIndex fObj + 1 = StepCount fObj"
  shows "(db l (trace l) Flush = None \<longrightarrow>
            FullJob blockNum block fObj l =
              (Ok, Shutdown None (l\<lparr>trace := trace l @ [Called Flush None]\<rparr>)))
       \<and> (db l (trace l) Flush = Some e \<longrightarrow>
            FullJob blockNum block fObj l =
              (Failed (Wrapped ''flush failed'' e),
               Shutdown (Some (Wrapped ''flush failed'' e))
                 (l\<lparr>trace := trace l @ [Called Flush (Some e)]\<rparr>)))
       \<and> terminating (snd (FullJob blockNum block fObj l))
       \<and> take (length (trace l) + 2) (trace (snd (FullJob blockNum block fObj l))) =
            trace l @ [Called Flush (db l (trace l) Flush),
                       ShutdownCalled (map_option (Wrapped ''flush failed'') (db l (trace l) Flush))]"
  using assms
  by (auto simp: FullJob_def cutoff_def DoFlush_eq Shutdown_terminating Shutdown_trace
      split: option.splits)

text \<open>The last delivery of the group 1998, 1999, 2000 under the stop block 2000.\<close>

theorem FullJob_cutoff_witness:
  "Step (mk_obj StepIrreversible 2 3 group_2000) = StepIrreversible
   \<and> endBlock (stop_loader db_ok) \<noteq> 0 \<and> endBlock (stop_loader db_ok) \<le> 2000
   \<and> StepIndex (mk_obj StepIrreversible 2 3 group_2000) + 1
       = StepCount (mk_obj StepIrreversible 2 3 group_2000)
   \<and> db (stop_loader db_ok) (trace (stop_loader db_ok)) Flush = None
   \<and> FullJob 2000 (old_block 2000) (mk_obj StepIrreversible 2 3 group_2000) (stop_loader db_ok)
       = (Ok, Shutdown None (stop_loader db_ok\<lparr>trace := [Called Flush None]\<rparr>))
   \<and> db (stop_loader db_flush_fails) (trace (stop_loader db_flush_fails)) Flush
       = Some (DBError ''deadline exceeded'')
   \<and> FullJob 2000 (old_block 2000) (mk_obj StepIrreversible 2 3 group_2000)
         (stop_loader db_flush_fails)
       = (Failed (Wrapped ''flush failed'' (DBError ''deadline exceeded'')),
          Shutdown (Some (Wrapped ''flush failed'' (DBError ''deadline exceeded'')))
            (stop_loader db_flush_fails\<lparr>trace := [Called Flush (Some (DBError ''deadline exceeded''))]\<rparr>))"
  using FullJob_cutoff [of "mk_obj StepIrreversible 2 3 group_2000" "stop_loader db_ok" 2000
      "old_block 2000"]
    FullJob_cutoff [of "mk_obj StepIrreversible 2 3 group_2000" "stop_loader db_flush_fails" 2000
      "old_block 2000" "DBError ''deadline exceeded''"]
  by (simp add: sample_defs)

section \<open>C7: a step that is neither New nor Irreversible\<close>

text \<open>
  C7, as the code has it. For a delivery whose step is neither New nor Irreversible,
  \<^verbatim>\<open>FullJob\<close> returns the error "unsupported forkable step" at once, with no call and no
  change of the loader; \<^verbatim>\<open>PatchJob\<close>, whose switch has no default case, returns nil and
  changes nothing.
\<close>

theorem other_step:
  assumes "Step fObj \<noteq> StepNew" and "Step fObj \<noteq> StepIrreversible"
  shows "FullJob blockNum block fObj l = (Failed (UnsupportedStep (Step fObj)), l)
       \<and> PatchJob blockNum block fObj l = (Ok, l)"
  using assms by (cases "Step fObj") (simp_all add: FullJob_def PatchJob_def)

text \<open>A Stalled delivery under either job.\<close>

theorem other_step_witness:
  "Step (mk_obj StepStalled 0 1 []) \<noteq> StepNew
   \<and> Step (mk_obj StepStalled 0 1 []) \<noteq> StepIrreversible
   \<and> FullJob 7 (old_block 7) (mk_obj StepStalled 0 1 []) (sample_loader db_ok)
       = (Failed (UnsupportedStep StepStalled), sample_loader db_ok)
   \<and> PatchJob 7 (old_block 7) (mk_obj StepStalled 0 1 [])
        (BuildPipelineJob JobPatch (sample_loader db_ok))
       = (Ok, BuildPipelineJob JobPatch (sample_loader db_ok))"
  using other_step [of "mk_obj StepStalled 0 1 []" 7 "old_block 7" "sample_loader db_ok"]
    other_step [of "mk_obj StepStalled 0 1 []" 7 "old_block 7"
      "BuildPipelineJob JobPatch (sample_loader db_ok)"]
  by (simp add: mk_obj_def)

text \<open>
  C7 as stated fails for the patch job: an Undo delivery handed to a loader built for the patch
  job is answered with nil.
\<close>

theorem PatchJob_other_step_counterexample:
  "Step (mk_obj StepUndo 0 1 []) \<noteq> StepNew
   \<and> Step (mk_obj StepUndo 0 1 []) \<noteq> StepIrreversible
   \<and> ProcessBlock (to_bstream (old_block 7)) (mk_obj StepUndo 0 1 [])
        (BuildPipelineJob JobPatch (sample_loader db_ok))
       = (Ok, BuildPipelineJob JobPatch (sample_loader db_ok))"
  by (simp add: sample_defs ProcessBlock_def PatchJob_def IsTerminating_def)

section \<open>C8: the patch job writes nothing\<close>

text \<open>
  C8. On a New delivery \<^verbatim>\<open>PatchJob\<close> is \<^verbatim>\<open>ShowProgress\<close> followed by
  \<^verbatim>\<open>FlushIfNeeded\<close>: the only call it can add to the trace is one \<^verbatim>\<open>Flush\<close>. On an
  Irreversible delivery below the stop-block test it changes nothing; at the stop-block test it
  calls \<^verbatim>\<open>Flush\<close> and, if that succeeded, \<^verbatim>\<open>Shutdown\<close>. Whatever the step, it makes
  no \<^verbatim>\<open>PutBlock\<close> and no \<^verbatim>\<open>UpdateNowIrreversibleBlock\<close> call.
\<close>

theorem PatchJob_frame:
  "(Step fObj = StepNew \<longrightarrow>
      PatchJob blockNum blk fObj l = FlushIfNeeded blockNum (MustTime blk) (ShowProgress blockNum l)
    \<and> emitted l (snd (PatchJob blockNum blk fObj l)) =
        (if batchSize l \<noteq> 0 \<and>
            (blockNum mod batchSize l = 0 \<or>
             time_Sub (clock l (Suc (reads l))) (MustTime blk) < 25 * Second)
         then [Called Flush (db l (trace l) Flush)] else []))
   \<and> (Step fObj = StepIrreversible \<and>
        \<not> (endBlock l \<noteq> 0 \<and> blockNum \<ge> endBlock l \<and> StepIndex fObj + 1 = StepCount fObj) \<longrightarrow>
        PatchJob blockNum blk fObj l = (Ok, l))
   \<and> (Step fObj = StepIrreversible \<and>
        endBlock l \<noteq> 0 \<and> blockNum \<ge> endBlock l \<and> StepIndex fObj + 1 = StepCount fObj \<longrightarrow>
        emitted l (snd (PatchJob blockNum blk fObj l)) =
          (case db l (trace l) Flush of
             Some e \<Rightarrow> [Called Flush (Some e)]
           | None \<Rightarrow>
               Called Flush None # ShutdownCalled None #
                 (if \<not> terminating l \<and> launched l \<and> \<not> sourceTerminating l
                  then [ShutdownCalled None] else [])))
   \<and> put_calls (emitted l (snd (PatchJob blockNum blk fObj l))) = []
   \<and> finalize_calls (emitted l (snd (PatchJob blockNum blk fObj l))) = []"
  by (cases "Step fObj")
     (auto simp: PatchJob_def cutoff_def emitted_def FlushIfNeeded_eq ShowProgress_frame DoFlush_eq
        Shutdown_trace split: option.splits)

text \<open>
  The patch job on New deliveries of the blocks 100 and 101, and on the first and the last
  delivery of the group 1998, 1999, 2000 under the stop block 2000.
\<close>

theorem PatchJob_frame_witness:
  "Step (mk_obj StepNew 0 1 []) = StepNew
   \<and> emitted (BuildPipelineJob JobPatch (sample_loader db_ok))
       (snd (PatchJob 100 (old_block 100) (mk_obj StepNew 0 1 [])
               (BuildPipelineJob JobPatch (sample_loader db_ok))))
     = [Called Flush None]
   \<and> emitted (BuildPipelineJob JobPatch (sample_loader db_ok))
       (snd (PatchJob 101 (old_block 101) (mk_obj StepNew 0 1 [])
               (BuildPipelineJob JobPatch (sample_loader db_ok))))
     = []
   \<and> PatchJob 1998 (old_block 1998) (mk_obj StepIrreversible 0 3 group_2000)
        (BuildPipelineJob JobPatch (stop_loader db_ok))
     = (Ok, BuildPipelineJob JobPatch (stop_loader db_ok))
   \<and> emitted (BuildPipelineJob JobPatch (stop_loader db_ok))
       (snd (PatchJob 2000 (old_block 2000) (mk_obj StepIrreversible 2 3 group_2000)
               (BuildPipelineJob JobPatch (stop_loader db_ok))))
     = [Called Flush None, ShutdownCalled None, ShutdownCalled None]"
  using PatchJob_frame [of "mk_obj StepNew 0 1 []" 100 "old_block 100"
      "BuildPipelineJob JobPatch (sample_loader db_ok)"]
    PatchJob_frame [of "mk_obj StepNew 0 1 []" 101 "old_block 101"
      "BuildPipelineJob JobPatch (sample_loader db_ok)"]
    PatchJob_frame [of "mk_obj StepIrreversible 0 3 group_2000" 1998 "old_block 1998"
      "BuildPipelineJob JobPatch (stop_loader db_ok)"]
    PatchJob_frame [of "mk_obj StepIrreversible 2 3 group_2000" 2000 "old_block 2000"
      "BuildPipelineJob JobPatch (stop_loader db_ok)"]
  by (simp add: sample_defs time_defs FlushIfNeeded_eq ShowProgress_eq emitted_def)

section \<open>C9: batch size 0\<close>

text \<open>
  C9, as the code has it. \<^verbatim>\<open>FlushIfNeeded\<close> panics (integer divide by zero) exactly when
  the batch size is 0, and then before any call or reading of the clock. With batch size 0 every
  New delivery under \<^verbatim>\<open>PatchJob\<close> panics; a New delivery under \<^verbatim>\<open>FullJob\<close> panics
  exactly when every Commit Target call of the delivery succeeded: a failed write returns its
  error before \<^verbatim>\<open>FlushIfNeeded\<close> is reached.
\<close>

theorem batchSize_zero:
  "(fst (FlushIfNeeded blockNum blockTime l) = Panic \<longleftrightarrow> batchSize l = 0)
   \<and> (batchSize l = 0 \<longrightarrow> FlushIfNeeded blockNum blockTime l = (Panic, l))
   \<and> (batchSize l = 0 \<and> Step fObj = StepNew \<longrightarrow> fst (PatchJob blockNum block fObj l) = Panic)
   \<and> (batchSize l = 0 \<and> Step fObj = StepNew \<longrightarrow>
        (fst (FullJob blockNum block fObj l) = Panic \<longleftrightarrow>
           (\<forall>ev \<in> set (emitted l (snd (FullJob blockNum block fObj l))). \<exists>c. ev = Called c None)))"
  apply (intro conjI impI)
     apply (simp add: FlushIfNeeded_eq ret_not_Panic)
    apply (simp add: FlushIfNeeded_eq)
   apply (simp add: PatchJob_def FlushIfNeeded_eq ShowProgress_frame)
  apply (auto simp: FullJob_def FullJob_store_eq FlushIfNeeded_eq ShowProgress_frame setHealthy_def
      db_call_eq emitted_def Let_def split: option.splits)
  done

text \<open>Loaders constructed with batch size 0, and one with batch size 100.\<close>

theorem batchSize_zero_witness:
  "batchSize (zero_loader db_ok) = 0
   \<and> FlushIfNeeded 5 Second (zero_loader db_ok) = (Panic, zero_loader db_ok)
   \<and> fst (PatchJob 5 (old_block 5) (mk_obj StepNew 0 1 [])
             (BuildPipelineJob JobPatch (zero_loader db_ok))) = Panic
   \<and> fst (FullJob 5 (old_block 5) (mk_obj StepNew 0 1 []) (zero_loader db_ok)) = Panic
   \<and> fst (FlushIfNeeded 5 Second (sample_loader db_ok)) \<noteq> Panic"
  using batchSize_zero [of 5 Second "zero_loader db_ok" "mk_obj StepNew 0 1 []" "old_block 5"]
    batchSize_zero [of 5 Second "BuildPipelineJob JobPatch (zero_loader db_ok)"
      "mk_obj StepNew 0 1 []" "old_block 5"]
    batchSize_zero [of 5 Second "sample_loader db_ok" "mk_obj StepNew 0 1 []" "old_block 5"]
  by (simp add: sample_defs emitted_def FullJob_def FullJob_store_eq FlushIfNeeded_eq
      ShowProgress_frame setHealthy_def Let_def)

text \<open>
  C9 as stated fails for the full job: with batch size 0 and a Commit Target whose
  \<^verbatim>\<open>PutBlock\<close> fails, a New delivery returns the store error and does not divide.
\<close>

theorem FullJob_New_batchSize_zero_counterexample:
  "batchSize (zero_loader db_put_fails) = 0
   \<and> Step (mk_obj StepNew 0 1 []) = StepNew
   \<and> fst (ProcessBlock (to_bstream (old_block 5)) (mk_obj StepNew 0 1 []) (zero_loader db_put_fails))
       = Failed (Formatted ''store block'' (DBError ''unavailable''))"
  by (simp add: sample_defs ProcessBlock_def IsTerminating_def FullJob_def FullJob_store_eq
      ShowProgress_frame setHealthy_def Let_def ShowProgress_eq)

section \<open>C10: a failed flush at the stop block\<close>

text \<open>
  C10. When the flush of the stop-block cutoff fails, \<^verbatim>\<open>PatchJob\<close> returns the flush error
  and the only event it adds is the failed \<^verbatim>\<open>Flush\<close>: it does not call \<^verbatim>\<open>Shutdown\<close>,
  and the loader is terminating afterwards only if it was before. \<^verbatim>\<open>FullJob\<close> on the same
  delivery calls \<^verbatim>\<open>Shutdown\<close> with that error right after the flush, and returns the error.
\<close>

theorem cutoff_flush_failure:
  assumes "Step fObj = StepIrreversible"
    and "endBlock l \<noteq> 0" and "blockNum \<ge> endBlock l"
    and "StepIndex fObj + 1 = StepCount fObj"
    and "db l (trace l) Flush = Some e"
  shows "PatchJob blockNum block fObj l =
           (Failed (Wrapped ''flush failed'' e), l\<lparr>trace := trace l @ [Called Flush (Some e)]\<rparr>)
       \<and> FullJob blockNum block fObj l =
           (Failed (Wrapped ''flush failed'' e),
            Shutdown (Some (Wrapped ''flush failed'' e)) (l\<lparr>trace := trace l @ [Called Flush (Some e)]\<rparr>))
       \<and> take (length (trace l) + 2) (trace (snd (FullJob blockNum block fObj l))) =
           trace l @ [Called Flush (Some e), ShutdownCalled (Some (Wrapped ''flush failed'' e))]
       \<and> terminating (snd (FullJob blockNum block fObj l))
       \<and> terminating (snd (PatchJob blockNum block fObj l)) = terminating l"
  using assms
  by (auto simp: PatchJob_def FullJob_def cutoff_def DoFlush_eq Shutdown_terminating Shutdown_trace)

text \<open>The last delivery of the group 1998, 1999, 2000 on a Commit Target whose flush fails.\<close>

theorem cutoff_flush_failure_witness:
  "db (stop_loader db_flush_fails) (trace (stop_loader db_flush_fails)) Flush
     = Some (DBError ''deadline exceeded'')
   \<and> PatchJob 2000 (old_block 2000) (mk_obj StepIrreversible 2 3 group_2000)
        (stop_loader db_flush_fails)
     = (Failed (Wrapped ''flush failed'' (DBError ''deadline exceeded'')),
        stop_loader db_flush_fails\<lparr>trace := [Called Flush (Some (DBError ''deadline exceeded''))]\<rparr>)
   \<and> \<not> terminating (snd (PatchJob 2000 (old_block 2000) (mk_obj StepIrreversible 2 3 group_2000)
        (stop_loader db_flush_fails)))
   \<and> trace (snd (FullJob 2000 (old_block 2000) (mk_obj StepIrreversible 2 3 group_2000)
        (stop_loader db_flush_fails)))
     = [Called Flush (Some (DBError ''deadline exceeded'')),
        ShutdownCalled (Some (Wrapped ''flush failed'' (DBError ''deadline exceeded''))),
        ShutdownCalled (Some (Wrapped ''flush failed'' (DBError ''deadline exceeded'')))]
   \<and> terminating (snd (FullJob 2000 (old_block 2000) (mk_obj StepIrreversible 2 3 group_2000)
        (stop_loader db_flush_fails)))"
  using cutoff_flush_failure [of "mk_obj StepIrreversible 2 3 group_2000"
      "stop_loader db_flush_fails" 2000 "DBError ''deadline exceeded''" "old_block 2000"]
  by (simp add: sample_defs Shutdown_trace Shutdown_terminating)

end
